theory Spec2Isabelle
  imports Complex_Main "HOL-Library.Word"
begin

unbundle bit_operations_syntax

section \<open>The heater example of Mongoose OS: fw/examples/c_heater/src/main.c\<close>

text \<open>
  The application reads an MCP9808 temperature sensor over I2C, drives a heater relay and
  an indicator LED, serves three HTTP endpoints and posts the temperature periodically.
  Its globals (\<open>s_i2c\<close>, \<open>s_heater\<close>, \<open>s_sensor_conn\<close>) and the effects it has on the
  firmware (bus transfers, GPIO writes, console lines, outbound connections) are the fields
  of one state record that every function takes and returns.

  The firmware headers (\<open>mg_i2c.h\<close>, \<open>mg_gpio.h\<close>, \<open>mg_mongoose.h\<close>, \<open>mg_sys_config.h\<close>)
  are not part of the sources. Every call into them is recorded in the state as the call
  that was made, and every value they return is read from an environment record, as a
  function of the calls made so far.
\<close>

subsection \<open>Constants\<close>

definition LED_GPIO :: nat where "LED_GPIO = 10"
definition RELAY_GPIO :: nat where "RELAY_GPIO = 13"
definition I2C_SDA_GPIO :: "8 word" where "I2C_SDA_GPIO = 12"
definition I2C_SCL_GPIO :: "8 word" where "I2C_SCL_GPIO = 14"
definition MCP9808_ADDR :: nat where "MCP9808_ADDR = 0x1F"

subsection \<open>Types of the firmware interface\<close>

datatype i2c_rw = I2C_READ | I2C_WRITE

text \<open>main.c names \<open>I2C_ACK\<close> and \<open>I2C_NAK\<close>; the other two stand for any further
  result of the driver, which main.c treats like \<open>I2C_NAK\<close> (it tests \<open>!= I2C_ACK\<close>).\<close>

datatype i2c_ack_type = I2C_ACK | I2C_NAK | I2C_ERR | I2C_NONE

datatype i2c_op =
    I2c_init "8 word" "8 word"
  | I2c_start nat i2c_rw
  | I2c_send_byte "8 word"
  | I2c_read_byte i2c_ack_type
  | I2c_stop

datatype gpio_level = GPIO_LEVEL_LOW | GPIO_LEVEL_HIGH
datatype gpio_mode = GPIO_MODE_OUTPUT
datatype gpio_pull = GPIO_PULL_FLOAT
datatype log_level = LL_INFO

datatype mg_event = MG_EV_HTTP_REQUEST | MG_EV_HTTP_REPLY | MG_EV_CLOSE | MG_EV_OTHER int

datatype mg_flag = MG_F_SEND_AND_CLOSE | MG_F_CLOSE_IMMEDIATELY

datatype handler = Handle_heater | Handle_heater_action | Handle_debug | Handle_sensor_conn

text \<open>What a handler has sent on a connection, one entry for each call of the HTTP library.\<close>

datatype http_out =
    Response_line int string
  | Printf string
  | Redirect int string string

record mg_connection =
  nc_out :: "http_out list"
  nc_flags :: "mg_flag set"

record http_message =
  hm_uri :: string

text \<open>The arguments of one call of \<open>mg_connect_http\<close>; a null pointer is \<open>None\<close>.\<close>

record http_connect =
  hc_handler :: handler
  hc_url :: "string option"
  hc_extra_headers :: "string option"
  hc_post_data :: "string option"

record esp_i2c_connection =
  sda_gpio :: "8 word"
  scl_gpio :: "8 word"
  started :: "8 word"

record sys_config_hsw =
  cfg_auth :: "string option"
  cfg_sensor_data_url :: "string option"
  cfg_sensor_report_interval_ms :: int

text \<open>
  The environment: the sensor on the bus (what each start, send and read returns, given
  the bus operations up to and including that one), the connection that
  \<open>mg_connect_http\<close> returns (given the calls up to and including that one; \<open>None\<close> is
  the null pointer), the conversions \<open>%.2lf\<close> and \<open>%u\<close> of the C library, the read-only
  variables and the configuration.
\<close>

record env =
  i2c_start_reply :: "i2c_op list \<Rightarrow> i2c_ack_type"
  i2c_send_reply :: "i2c_op list \<Rightarrow> i2c_ack_type"
  i2c_read_reply :: "i2c_op list \<Rightarrow> 8 word"
  connect_reply :: "http_connect list \<Rightarrow> nat option"
  printf_2lf :: "real \<Rightarrow> string"
  printf_u :: "nat \<Rightarrow> string"
  fw_version :: string
  fw_id :: string
  hsw :: sys_config_hsw

record app_state =
  s_i2c :: esp_i2c_connection
  s_heater :: bool
  s_sensor_conn :: "nat option"
  i2c_bus :: "i2c_op list"
  gpio_modes :: "nat \<rightharpoonup> gpio_mode \<times> gpio_pull"
  gpio_levels :: "nat \<rightharpoonup> gpio_level"
  console :: "(log_level \<times> string) list"
  http_endpoints :: "(string \<times> handler) list"
  c_timers :: "(int \<times> bool) list"
  connects :: "http_connect list"
  net_live :: "nat set"

subsection \<open>The firmware calls\<close>

text \<open>Modelled from the spec: the Bus Transaction Driver (\<open>fw/src/mg_i2c.h\<close>) is an external
  collaborator with start, stop and byte-transfer primitives and acknowledge signalling.
  Each primitive appends its operation to the bus trace and returns the sensor's reply.\<close>

definition i2c_init :: "app_state \<Rightarrow> app_state" where
  "i2c_init st = st\<lparr>i2c_bus := i2c_bus st @ [I2c_init (sda_gpio (s_i2c st)) (scl_gpio (s_i2c st))]\<rparr>"

definition i2c_start :: "env \<Rightarrow> i2c_op list \<Rightarrow> nat \<Rightarrow> i2c_rw \<Rightarrow> i2c_ack_type \<times> i2c_op list" where
  "i2c_start e bus addr mode =
     (let bus' = bus @ [I2c_start addr mode] in (i2c_start_reply e bus', bus'))"

definition i2c_send_byte :: "env \<Rightarrow> i2c_op list \<Rightarrow> 8 word \<Rightarrow> i2c_ack_type \<times> i2c_op list" where
  "i2c_send_byte e bus b =
     (let bus' = bus @ [I2c_send_byte b] in (i2c_send_reply e bus', bus'))"

definition i2c_read_byte :: "env \<Rightarrow> i2c_op list \<Rightarrow> i2c_ack_type \<Rightarrow> 8 word \<times> i2c_op list" where
  "i2c_read_byte e bus ack =
     (let bus' = bus @ [I2c_read_byte ack] in (i2c_read_reply e bus', bus'))"

definition i2c_stop :: "i2c_op list \<Rightarrow> i2c_op list" where
  "i2c_stop bus = bus @ [I2c_stop]"

text \<open>Modelled from the spec: the GPIO driver (\<open>fw/src/mg_gpio.h\<close>) is an external
  collaborator; a write sets the level of the pin, a mode call sets its mode.\<close>

definition mg_gpio_set_mode :: "nat \<Rightarrow> gpio_mode \<Rightarrow> gpio_pull \<Rightarrow> app_state \<Rightarrow> app_state" where
  "mg_gpio_set_mode pin m p st = st\<lparr>gpio_modes := (gpio_modes st)(pin \<mapsto> (m, p))\<rparr>"

definition mg_gpio_write :: "nat \<Rightarrow> gpio_level \<Rightarrow> app_state \<Rightarrow> app_state" where
  "mg_gpio_write pin l st = st\<lparr>gpio_levels := (gpio_levels st)(pin \<mapsto> l)\<rparr>"

text \<open>Modelled from the spec: the console (\<open>fw/src/mg_console.h\<close>) receives one diagnostic
  line for each call of \<open>CONSOLE_LOG\<close>.\<close>

definition CONSOLE_LOG :: "log_level \<Rightarrow> string \<Rightarrow> app_state \<Rightarrow> app_state" where
  "CONSOLE_LOG l msg st = st\<lparr>console := console st @ [(l, msg)]\<rparr>"

text \<open>Modelled from the spec: the HTTP runtime (\<open>fw/src/mg_mongoose.h\<close>) is an external
  collaborator. Its sending functions append to what the connection has sent;
  \<open>mg_connect_http\<close> records the call, returns the connection the runtime gives (or null),
  and from then on the runtime holds that connection as a live outbound connection.\<close>

definition mg_send_response_line :: "mg_connection \<Rightarrow> int \<Rightarrow> string \<Rightarrow> mg_connection" where
  "mg_send_response_line nc code hdrs = nc\<lparr>nc_out := nc_out nc @ [Response_line code hdrs]\<rparr>"

definition mg_printf :: "mg_connection \<Rightarrow> string \<Rightarrow> mg_connection" where
  "mg_printf nc s = nc\<lparr>nc_out := nc_out nc @ [Printf s]\<rparr>"

definition mg_http_send_redirect :: "mg_connection \<Rightarrow> int \<Rightarrow> string \<Rightarrow> string \<Rightarrow> mg_connection" where
  "mg_http_send_redirect nc code loc hdrs = nc\<lparr>nc_out := nc_out nc @ [Redirect code loc hdrs]\<rparr>"

definition set_flag :: "mg_flag \<Rightarrow> mg_connection \<Rightarrow> mg_connection" where
  "set_flag f nc = nc\<lparr>nc_flags := insert f (nc_flags nc)\<rparr>"

definition mg_connect_http ::
  "env \<Rightarrow> app_state \<Rightarrow> handler \<Rightarrow> string option \<Rightarrow> string option \<Rightarrow> string option \<Rightarrow>
   nat option \<times> app_state" where
  "mg_connect_http e st h url eh post_data =
     (let cs = connects st @
                 [\<lparr>hc_handler = h, hc_url = url, hc_extra_headers = eh,
                   hc_post_data = post_data\<rparr>];
          c = connect_reply e cs
      in (c, st\<lparr>connects := cs, net_live := net_live st \<union> set_option c\<rparr>))"

definition mg_register_http_endpoint :: "string \<Rightarrow> handler \<Rightarrow> app_state \<Rightarrow> app_state" where
  "mg_register_http_endpoint path h st = st\<lparr>http_endpoints := http_endpoints st @ [(path, h)]\<rparr>"

definition mg_set_c_timer :: "int \<Rightarrow> bool \<Rightarrow> app_state \<Rightarrow> app_state" where
  "mg_set_c_timer msecs repeat st = st\<lparr>c_timers := c_timers st @ [(msecs, repeat)]\<rparr>"

subsection \<open>mc6808_read_temp\<close>

text \<open>
  Lines 41 to 48: the decoding of the two register bytes. The C expression is evaluated in
  \<open>double\<close>; every intermediate value is a multiple of 1/16 of magnitude at most 256, which
  a double holds exactly, so the arithmetic is that of the reals.
\<close>

definition mc6808_decode :: "8 word \<Rightarrow> 8 word \<Rightarrow> real" where
  "mc6808_decode upper_byte lower_byte =
     (let upper_byte = upper_byte AND 0x1f in
      if upper_byte AND 0x10 \<noteq> 0 then
        (let upper_byte = upper_byte AND 0xf in
         - (256 - (real (unat upper_byte) * 16 + real (unat lower_byte) / 16)))
      else
        real (unat upper_byte) * 16 + real (unat lower_byte) / 16)"

definition mc6808_read_temp :: "env \<Rightarrow> i2c_op list \<Rightarrow> real \<times> i2c_op list" where
  "mc6808_read_temp e i2c =
     (let (a1, bus1) = i2c_start e i2c MCP9808_ADDR I2C_WRITE in
      if a1 \<noteq> I2C_ACK then (- 1000, bus1)
      else
        let (a2, bus2) = i2c_send_byte e bus1 0x05;
            (a3, bus3) = i2c_start e bus2 MCP9808_ADDR I2C_READ in
        if a3 \<noteq> I2C_ACK then (- 1000, bus3)
        else
          let (upper_byte, bus4) = i2c_read_byte e bus3 I2C_ACK;
              (lower_byte, bus5) = i2c_read_byte e bus4 I2C_NAK;
              bus6 = i2c_stop bus5
          in (mc6808_decode upper_byte lower_byte, bus6))"

subsection \<open>set_heater\<close>

definition level_of :: "bool \<Rightarrow> gpio_level" where
  "level_of on = (if on then GPIO_LEVEL_HIGH else GPIO_LEVEL_LOW)"

definition on_off :: "bool \<Rightarrow> string" where
  "on_off on = (if on then ''on'' else ''off'')"

definition set_heater :: "bool \<Rightarrow> app_state \<Rightarrow> app_state" where
  "set_heater on st =
     (let st1 = CONSOLE_LOG LL_INFO (''Heater '' @ on_off on) st;
          st2 = mg_gpio_write LED_GPIO (level_of on) st1;
          st3 = mg_gpio_write RELAY_GPIO (level_of on) st2
      in st3\<lparr>s_heater := on\<rparr>)"

subsection \<open>The HTTP handlers\<close>

definition heater_page :: "env \<Rightarrow> real \<Rightarrow> bool \<Rightarrow> string" where
  "heater_page e temp heater =
     ''<h1>Welcome to Cesanta Office IoT!</h1>'' @ [CHR 13, CHR 10] @
     ''<p>Temperature is '' @ printf_2lf e temp @ ''&deg;C.</p>'' @ [CHR 13, CHR 10] @
     ''<p>Heater is '' @ on_off heater @ ''.</p>'' @ [CHR 13, CHR 10] @
     ''<form action=/heater/'' @ on_off (\<not> heater) @ ''><input type=submit value='' @ [CHR 39] @
     ''Turn heater '' @ on_off (\<not> heater) @ [CHR 39] @ ''></form>'' @ [CHR 13, CHR 10] @
     ''<hr>'' @ [CHR 13, CHR 10] @
     ''Heater FW '' @ fw_version e @ '' ('' @ fw_id e @ '')''"

definition handle_heater ::
  "env \<Rightarrow> app_state \<Rightarrow> mg_connection \<Rightarrow> mg_event \<Rightarrow> app_state \<times> mg_connection" where
  "handle_heater e st nc ev =
     (if ev \<noteq> MG_EV_HTTP_REQUEST then (st, nc)
      else
        let nc1 = mg_send_response_line nc 200
                    (''Content-Type: text/html'' @ [CHR 13, CHR 10] @
                     ''Connection: close'' @ [CHR 13, CHR 10]);
            (temp, bus) = mc6808_read_temp e (i2c_bus st);
            st1 = st\<lparr>i2c_bus := bus\<rparr>;
            nc2 = mg_printf nc1 (heater_page e temp (s_heater st1))
        in (st1, set_flag MG_F_SEND_AND_CLOSE nc2))"

definition handle_heater_action ::
  "app_state \<Rightarrow> mg_connection \<Rightarrow> mg_event \<Rightarrow> http_message \<Rightarrow> app_state \<times> mg_connection" where
  "handle_heater_action st nc ev hm =
     (if ev \<noteq> MG_EV_HTTP_REQUEST then (st, nc)
      else
        let st1 = (if hm_uri hm = ''/heater/on'' then set_heater True st
                   else if hm_uri hm = ''/heater/off'' then set_heater False st
                   else st);
            nc1 = mg_http_send_redirect nc 302 ''/heater'' ''''
        in (st1, set_flag MG_F_SEND_AND_CLOSE nc1))"

definition handle_debug ::
  "env \<Rightarrow> real \<Rightarrow> nat \<Rightarrow> app_state \<Rightarrow> mg_connection \<Rightarrow> mg_event \<Rightarrow> app_state \<times> mg_connection" where
  "handle_debug e mg_time free_heap st nc ev =
     (if ev \<noteq> MG_EV_HTTP_REQUEST then (st, nc)
      else
        let nc1 = mg_send_response_line nc 200
                    (''Content-Type: text/plain'' @ [CHR 13, CHR 10] @
                     ''Connection: close'' @ [CHR 13, CHR 10]);
            nc2 = mg_printf nc1 (''Time is '' @ printf_2lf e mg_time @ ''. Free RAM '' @
                                 printf_u e free_heap @ ''.'' @ [CHR 13, CHR 10])
        in (st, set_flag MG_F_SEND_AND_CLOSE nc2))"

subsection \<open>The periodic reporter\<close>

definition handle_sensor_conn ::
  "app_state \<Rightarrow> mg_connection \<Rightarrow> mg_event \<Rightarrow> app_state \<times> mg_connection" where
  "handle_sensor_conn st nc ev =
     (case ev of
        MG_EV_HTTP_REPLY \<Rightarrow> (st, set_flag MG_F_CLOSE_IMMEDIATELY nc)
      | MG_EV_CLOSE \<Rightarrow> (st\<lparr>s_sensor_conn := None\<rparr>, nc)
      | _ \<Rightarrow> (st, nc))"

definition sensor_timer_cb :: "env \<Rightarrow> app_state \<Rightarrow> app_state" where
  "sensor_timer_cb e st =
     (if s_sensor_conn st \<noteq> None then st
      else
        let (temp, bus) = mc6808_read_temp e (i2c_bus st);
            st1 = st\<lparr>i2c_bus := bus\<rparr> in
        if temp \<le> - 1000 then st1
        else
          let post_data = ''{'' @ [CHR 34] @ ''office_temperature'' @ [CHR 34] @ '': '' @
                          printf_2lf e temp @ ''}'';
              eh = (case cfg_auth (hsw e) of
                      None \<Rightarrow> None
                    | Some auth \<Rightarrow> Some (''Authorization: '' @ auth @ [CHR 13, CHR 10]));
              (c, st2) = mg_connect_http e st1 Handle_sensor_conn
                           (cfg_sensor_data_url (hsw e)) eh (Some post_data)
          in st2\<lparr>s_sensor_conn := c\<rparr>)"

subsection \<open>mg_app_init\<close>

definition mg_app_init :: "env \<Rightarrow> app_state \<Rightarrow> app_state" where
  "mg_app_init e st =
     (let st1 = mg_gpio_set_mode LED_GPIO GPIO_MODE_OUTPUT GPIO_PULL_FLOAT st;
          st2 = mg_gpio_set_mode RELAY_GPIO GPIO_MODE_OUTPUT GPIO_PULL_FLOAT st1;
          st3 = mg_gpio_write LED_GPIO GPIO_LEVEL_LOW st2;
          st4 = mg_gpio_write RELAY_GPIO GPIO_LEVEL_LOW st3;
          st5 = mg_register_http_endpoint ''/heater/'' Handle_heater_action st4;
          st6 = mg_register_http_endpoint ''/heater'' Handle_heater st5;
          st7 = mg_register_http_endpoint ''/debug'' Handle_debug st6;
          st8 = st7\<lparr>s_i2c := (s_i2c st7)\<lparr>sda_gpio := I2C_SDA_GPIO, scl_gpio := I2C_SCL_GPIO\<rparr>\<rparr>;
          st9 = i2c_init st8
      in if cfg_sensor_report_interval_ms (hsw e) > 0 \<and> cfg_sensor_data_url (hsw e) \<noteq> None
         then mg_set_c_timer (cfg_sensor_report_interval_ms (hsw e)) True st9
         else st9)"

text \<open>The state of the globals when the program starts: the static initialisers of
  main.c, and a firmware on which nothing has been done yet.\<close>

definition boot_state :: app_state where
  "boot_state =
     \<lparr>s_i2c = \<lparr>sda_gpio = 0, scl_gpio = 0, started = 0\<rparr>,
      s_heater = False, s_sensor_conn = None, i2c_bus = [],
      gpio_modes = Map.empty, gpio_levels = Map.empty, console = [],
      http_endpoints = [], c_timers = [], connects = [], net_live = {}\<rparr>"

subsection \<open>The event loop\<close>

text \<open>Modelled from the spec: the event-dispatch runtime is an external collaborator. It is
  single-threaded and runs every handler to completion; it calls the timer callback only
  if \<open>mg_app_init\<close> has armed the timer; it delivers the events of an outbound connection
  to that connection's handler only while the connection is live, and the close event
  ends the connection. The only call of \<open>mg_connect_http\<close> in main.c passes
  \<open>handle_sensor_conn\<close> as the handler, so that is the handler of every live outbound
  connection. The values of \<open>mg_time()\<close> and \<open>mg_get_free_heap_size()\<close> at a
  request for \<open>/debug\<close> come with the event.\<close>

datatype app_event =
    Timer_fired
  | Ev_heater mg_connection mg_event
  | Ev_heater_action mg_connection mg_event http_message
  | Ev_debug real nat mg_connection mg_event
  | Ev_sensor_conn nat mg_connection mg_event

definition step :: "env \<Rightarrow> app_state \<Rightarrow> app_event \<Rightarrow> app_state" where
  "step e st a =
     (case a of
        Timer_fired \<Rightarrow> (if c_timers st = [] then st else sensor_timer_cb e st)
      | Ev_heater nc ev \<Rightarrow> fst (handle_heater e st nc ev)
      | Ev_heater_action nc ev hm \<Rightarrow> fst (handle_heater_action st nc ev hm)
      | Ev_debug t free nc ev \<Rightarrow> fst (handle_debug e t free st nc ev)
      | Ev_sensor_conn c nc ev \<Rightarrow>
          (if c \<notin> net_live st then st
           else
             let st1 = fst (handle_sensor_conn st nc ev) in
             if ev = MG_EV_CLOSE then st1\<lparr>net_live := net_live st1 - {c}\<rparr> else st1))"

definition run :: "env \<Rightarrow> app_event list \<Rightarrow> app_state" where
  "run e evs = foldl (step e) (mg_app_init e boot_state) evs"

subsection \<open>Observations used in the statements\<close>

text \<open>What the sensor answers in the transaction that \<open>mc6808_read_temp\<close> issues when the
  bus trace is \<open>bus\<close>: the acknowledge of the write-addressed start, the acknowledge of the
  read-addressed start, and the two register bytes.\<close>

definition write_start_acked :: "env \<Rightarrow> i2c_op list \<Rightarrow> bool" where
  "write_start_acked e bus \<longleftrightarrow>
     i2c_start_reply e (bus @ [I2c_start MCP9808_ADDR I2C_WRITE]) = I2C_ACK"

definition read_start_acked :: "env \<Rightarrow> i2c_op list \<Rightarrow> bool" where
  "read_start_acked e bus \<longleftrightarrow>
     i2c_start_reply e (bus @ [I2c_start MCP9808_ADDR I2C_WRITE, I2c_send_byte 0x05,
                               I2c_start MCP9808_ADDR I2C_READ]) = I2C_ACK"

definition upper_reply :: "env \<Rightarrow> i2c_op list \<Rightarrow> 8 word" where
  "upper_reply e bus =
     i2c_read_reply e (bus @ [I2c_start MCP9808_ADDR I2C_WRITE, I2c_send_byte 0x05,
                              I2c_start MCP9808_ADDR I2C_READ, I2c_read_byte I2C_ACK])"

definition lower_reply :: "env \<Rightarrow> i2c_op list \<Rightarrow> 8 word" where
  "lower_reply e bus =
     i2c_read_reply e (bus @ [I2c_start MCP9808_ADDR I2C_WRITE, I2c_send_byte 0x05,
                              I2c_start MCP9808_ADDR I2C_READ, I2c_read_byte I2C_ACK,
                              I2c_read_byte I2C_NAK])"

text \<open>The indicator and the relay both show the stored boolean.\<close>

definition outputs_match :: "app_state \<Rightarrow> bool" where
  "outputs_match st \<longleftrightarrow>
     gpio_levels st LED_GPIO = Some (level_of (s_heater st)) \<and>
     gpio_levels st RELAY_GPIO = Some (level_of (s_heater st))"

text \<open>The live outbound connections are exactly the pending-report handle.\<close>

definition single_flight :: "app_state \<Rightarrow> bool" where
  "single_flight st \<longleftrightarrow> net_live st = set_option (s_sensor_conn st)"

subsection \<open>A concrete environment\<close>

text \<open>Modelled from the spec: the conversion \<open>%.2lf\<close> of the C library prints the value
  rounded to two decimals (the tie of an exactly representable value goes to the even
  digit), with a minus sign for a negative value; \<open>%u\<close> prints the decimal digits.\<close>

function dec_digits :: "nat \<Rightarrow> string" where
  "dec_digits n =
     (if n < 10 then [''0123456789'' ! n]
      else dec_digits (n div 10) @ [''0123456789'' ! (n mod 10)])"
  by pat_completeness auto
termination
  by (relation "measure id") auto

definition round_half_even :: "real \<Rightarrow> int" where
  "round_half_even y =
     (let f = \<lfloor>y\<rfloor>; d = y - of_int f in
      if d < 1 / 2 then f
      else if 1 / 2 < d then f + 1
      else if even f then f else f + 1)"

definition c_printf_2lf :: "real \<Rightarrow> string" where
  "c_printf_2lf x =
     (let h = nat (round_half_even (\<bar>x\<bar> * 100)) in
      (if x < 0 then ''-'' else []) @ dec_digits (h div 100) @ ''.'' @
      [''0123456789'' ! (h mod 100 div 10), ''0123456789'' ! (h mod 10)])"

text \<open>A sensor that answers the two starts with \<open>aw\<close> and \<open>ar\<close> and the two reads with
  \<open>upper\<close> and \<open>lower\<close>, a runtime that returns \<open>conn\<close> from every \<open>mg_connect_http\<close>, and
  a configuration with a report URL and the credential \<open>auth\<close>.\<close>

definition sensor_env ::
  "i2c_ack_type \<Rightarrow> i2c_ack_type \<Rightarrow> 8 word \<Rightarrow> 8 word \<Rightarrow> nat option \<Rightarrow> string option \<Rightarrow> env" where
  "sensor_env aw ar upper lower conn auth =
     \<lparr>i2c_start_reply = (\<lambda>bus. if last bus = I2c_start MCP9808_ADDR I2C_WRITE then aw else ar),
      i2c_send_reply = (\<lambda>bus. I2C_ACK),
      i2c_read_reply = (\<lambda>bus. if last bus = I2c_read_byte I2C_ACK then upper else lower),
      connect_reply = (\<lambda>cs. conn),
      printf_2lf = c_printf_2lf,
      printf_u = dec_digits,
      fw_version = ''1.0'',
      fw_id = ''20160101-000000'',
      hsw = \<lparr>cfg_auth = auth, cfg_sensor_data_url = Some ''http://example.org/t'',
             cfg_sensor_report_interval_ms = 1000\<rparr>\<rparr>"

definition empty_conn :: mg_connection where
  "empty_conn = \<lparr>nc_out = [], nc_flags = {}\<rparr>"

section \<open>Properties\<close>

subsection \<open>The register bytes\<close>

lemma sign_bit_test: "((w :: 8 word) AND 0x1f) AND 0x10 \<noteq> 0 \<longleftrightarrow> bit (take_bit 5 w) 4"
proof -
  have a: "(w AND 0x1f) AND 0x10 = w AND 0x10"
    by (simp add: and.assoc)
  have "(w AND 2 ^ 4 = 0) = (\<not> bit w 4)"
    by (rule and_exp_eq_0_iff_not_bit)
  then have "w AND 0x10 \<noteq> 0 \<longleftrightarrow> bit w 4"
    by simp
  then show ?thesis
    by (simp add: a bit_take_bit_iff)
qed

lemma clear_sign_bit: "((w :: 8 word) AND 0x1f) AND 0xf = unset_bit 4 (take_bit 5 w)"
proof (rule bit_word_eqI)
  fix n assume "n < LENGTH(8)"
  have m5: "(0x1f :: 8 word) = mask 5" by (simp add: mask_eq_exp_minus_1)
  have m4: "(0xf :: 8 word) = mask 4" by (simp add: mask_eq_exp_minus_1)
  show "bit ((w AND 0x1f) AND 0xf) n = bit (unset_bit 4 (take_bit 5 w)) n"
    unfolding m5 m4
    by (auto simp: bit_and_iff bit_mask_iff bit_unset_bit_iff bit_take_bit_iff)
qed

lemma unat_low_nibble: "unat ((w :: 8 word) AND 0xf) \<le> 15"
proof -
  have "unat (w AND 0xf) \<le> unat (0xf :: 8 word)"
    by (rule word_and_le1 [THEN word_le_nat_alt [THEN iffD1]])
  then show ?thesis by simp
qed

lemma unat_low_five_clear:
  assumes "((w :: 8 word) AND 0x1f) AND 0x10 = 0"
  shows "unat (w AND 0x1f) \<le> 15"
proof -
  have "w AND 0x1f = w AND 0xf"
  proof (rule bit_word_eqI)
    fix n assume "n < LENGTH(8)"
    have m5: "(0x1f :: 8 word) = mask 5" by (simp add: mask_eq_exp_minus_1)
    have m4: "(0xf :: 8 word) = mask 4" by (simp add: mask_eq_exp_minus_1)
    have "\<not> bit (take_bit 5 w) 4" using assms sign_bit_test [of w] by simp
    then have nb: "\<not> bit w 4" by (simp add: bit_take_bit_iff)
    have "n < 5 \<longleftrightarrow> n < 4 \<or> n = 4" by auto
    then show "bit (w AND 0x1f) n = bit (w AND 0xf) n"
      unfolding m5 m4 using nb by (auto simp: bit_and_iff bit_mask_iff)
  qed
  then show ?thesis using unat_low_nibble [of w] by simp
qed

lemma unat_byte: "unat (w :: 8 word) \<le> 255"
  using unsigned_less [of w, where 'a = nat] by simp

lemma decode_nonneg:
  assumes "(u AND 0x1f) AND 0x10 = 0"
  shows "mc6808_decode u l = real (unat (u AND 0x1f)) * 16 + real (unat l) / 16"
  unfolding mc6808_decode_def Let_def by (simp only: assms simp_thms if_False)

lemma decode_neg:
  assumes "(u AND 0x1f) AND 0x10 \<noteq> 0"
  shows "mc6808_decode u l =
         - (256 - (real (unat ((u AND 0x1f) AND 0xf)) * 16 + real (unat l) / 16))"
  unfolding mc6808_decode_def Let_def by (simp only: assms simp_thms if_True)

lemma real_unat_bound: "unat w \<le> n \<Longrightarrow> 0 \<le> real (unat w) \<and> real (unat w) \<le> real n"
  by (simp only: of_nat_0_le_iff of_nat_le_iff simp_thms)

lemma decode_range: "- 256 \<le> mc6808_decode u l \<and> mc6808_decode u l \<le> 255.9375"
proof -
  define b where "b = real (unat l)"
  have b: "0 \<le> b \<and> b \<le> 255"
    unfolding b_def using real_unat_bound [OF unat_byte [of l]] by simp
  show ?thesis
  proof (cases "(u AND 0x1f) AND 0x10 = 0")
    case True
    define a where "a = real (unat (u AND 0x1f))"
    have a: "0 \<le> a \<and> a \<le> 15"
      unfolding a_def using real_unat_bound [OF unat_low_five_clear [OF True]] by simp
    have "mc6808_decode u l = a * 16 + b / 16"
      unfolding a_def b_def by (rule decode_nonneg [OF True])
    then show ?thesis using a b by simp
  next
    case False
    define a where "a = real (unat ((u AND 0x1f) AND 0xf))"
    have a: "0 \<le> a \<and> a \<le> 15"
      unfolding a_def using real_unat_bound [OF unat_low_nibble [of "u AND 0x1f"]] by simp
    have "mc6808_decode u l = - (256 - (a * 16 + b / 16))"
      unfolding a_def b_def by (rule decode_neg [OF False])
    then show ?thesis using a b by simp
  qed
qed

subsection \<open>The bus transaction\<close>

lemma read_temp_write_nak:
  "\<not> write_start_acked e bus \<Longrightarrow>
   mc6808_read_temp e bus = (- 1000, bus @ [I2c_start MCP9808_ADDR I2C_WRITE])"
  by (simp add: mc6808_read_temp_def i2c_start_def write_start_acked_def Let_def)

lemma read_temp_read_nak:
  "write_start_acked e bus \<Longrightarrow> \<not> read_start_acked e bus \<Longrightarrow>
   mc6808_read_temp e bus =
     (- 1000, bus @ [I2c_start MCP9808_ADDR I2C_WRITE, I2c_send_byte 0x05,
                     I2c_start MCP9808_ADDR I2C_READ])"
  by (simp add: mc6808_read_temp_def i2c_start_def i2c_send_byte_def
      write_start_acked_def read_start_acked_def Let_def)

lemma read_temp_acked:
  "write_start_acked e bus \<Longrightarrow> read_start_acked e bus \<Longrightarrow>
   mc6808_read_temp e bus =
     (mc6808_decode (upper_reply e bus) (lower_reply e bus),
      bus @ [I2c_start MCP9808_ADDR I2C_WRITE, I2c_send_byte 0x05,
             I2c_start MCP9808_ADDR I2C_READ, I2c_read_byte I2C_ACK,
             I2c_read_byte I2C_NAK, I2c_stop])"
  by (simp add: mc6808_read_temp_def i2c_start_def i2c_send_byte_def i2c_read_byte_def
      i2c_stop_def write_start_acked_def read_start_acked_def upper_reply_def
      lower_reply_def Let_def)

lemma low_five_bits: "take_bit 5 (w :: 8 word) = w AND 0x1f"
  by (simp add: take_bit_eq_mask mask_eq_exp_minus_1)

lemma decode_as_claimed:
  "mc6808_decode upper lower =
     (let u = take_bit 5 upper in
      if \<not> bit u 4 then real (unat u) * 16 + real (unat lower) / 16
      else - (256 - (real (unat (unset_bit 4 u)) * 16 + real (unat lower) / 16)))"
proof (cases "(upper AND 0x1f) AND 0x10 = 0")
  case True
  then have "\<not> bit (take_bit 5 upper) 4"
    using sign_bit_test [of upper] by (simp only: simp_thms)
  then show ?thesis
    unfolding Let_def decode_nonneg [OF True] by (simp only: simp_thms if_True low_five_bits)
next
  case False
  then have "bit (take_bit 5 upper) 4"
    using sign_bit_test [of upper] by (simp only: simp_thms)
  then show ?thesis
    unfolding Let_def decode_neg [OF False] clear_sign_bit
    by (simp only: simp_thms if_False)
qed

lemma decode_sixteenths: "\<exists>k::int. mc6808_decode upper lower = real_of_int k / 16"
proof (cases "(upper AND 0x1f) AND 0x10 = 0")
  case True
  have "mc6808_decode upper lower =
        real_of_int (int (unat (upper AND 0x1f)) * 256 + int (unat lower)) / 16"
    unfolding decode_nonneg [OF True] by (simp add: field_simps)
  then show ?thesis by blast
next
  case False
  have "mc6808_decode upper lower =
        real_of_int (int (unat ((upper AND 0x1f) AND 0xf)) * 256 + int (unat lower) - 4096) / 16"
    unfolding decode_neg [OF False] by (simp add: field_simps)
  then show ?thesis by blast
qed

subsection \<open>The claims about the temperature decoder\<close>

text \<open>
  C1. When both starts of the bus transaction are acknowledged, the temperature that
  \<open>mc6808_read_temp\<close> returns is decoded from the two register bytes read, upper and
  lower, as follows: with u the low 5 bits of upper, if bit 4 of u is clear the result is
  u * 16 + lower / 16, and if bit 4 of u is set the result is
  - (256 - ((u with bit 4 cleared) * 16 + lower / 16)). The result is a whole number of
  sixteenths of a degree: nothing is rounded.
\<close>

theorem C1_decoded_temperature:
  assumes "write_start_acked e bus" and "read_start_acked e bus"
  shows "fst (mc6808_read_temp e bus) =
           (let u = take_bit 5 (upper_reply e bus); l = lower_reply e bus in
            if \<not> bit u 4 then real (unat u) * 16 + real (unat l) / 16
            else - (256 - (real (unat (unset_bit 4 u)) * 16 + real (unat l) / 16))) \<and>
         (\<exists>k::int. fst (mc6808_read_temp e bus) = real_of_int k / 16)"
proof -
  have r: "fst (mc6808_read_temp e bus) = mc6808_decode (upper_reply e bus) (lower_reply e bus)"
    by (simp only: read_temp_acked [OF assms] fst_conv)
  show ?thesis
    unfolding r using decode_as_claimed [of "upper_reply e bus" "lower_reply e bus"]
      decode_sixteenths [of "upper_reply e bus" "lower_reply e bus"]
    by (simp only: Let_def simp_thms)
qed

theorem C1_decoded_temperature_witness:
  "write_start_acked (sensor_env I2C_ACK I2C_ACK 0x1F 0xF0 (Some 1) None) [] \<and>
   read_start_acked (sensor_env I2C_ACK I2C_ACK 0x1F 0xF0 (Some 1) None) [] \<and>
   fst (mc6808_read_temp (sensor_env I2C_ACK I2C_ACK 0x1F 0xF0 (Some 1) None) []) = - 1"
proof -
  let ?e = "sensor_env I2C_ACK I2C_ACK 0x1F 0xF0 (Some 1) None"
  have w: "write_start_acked ?e []"
    by (simp add: write_start_acked_def sensor_env_def)
  have r: "read_start_acked ?e []"
    by (simp add: read_start_acked_def sensor_env_def)
  have u: "upper_reply ?e [] = 0x1F" and l: "lower_reply ?e [] = 0xF0"
    by (simp_all add: upper_reply_def lower_reply_def sensor_env_def)
  have "fst (mc6808_read_temp ?e []) = - 1"
    using C1_decoded_temperature [OF w r, THEN conjunct1] unfolding u l Let_def
    by (simp only: clear_sign_bit [symmetric] sign_bit_test [symmetric]) simp
  with w r show ?thesis by simp
qed

subsection \<open>The sentinel and the timer callback\<close>

lemma read_temp_sentinel_iff:
  "fst (mc6808_read_temp e bus) \<le> - 1000 \<longleftrightarrow>
   \<not> (write_start_acked e bus \<and> read_start_acked e bus)"
proof (cases "write_start_acked e bus")
  case False
  then show ?thesis by (simp add: read_temp_write_nak)
next
  case w: True
  show ?thesis
  proof (cases "read_start_acked e bus")
    case False
    with w show ?thesis by (simp add: read_temp_read_nak)
  next
    case True
    have "- 256 \<le> mc6808_decode (upper_reply e bus) (lower_reply e bus)"
      using decode_range by blast
    with w True show ?thesis by (simp add: read_temp_acked)
  qed
qed

lemma timer_busy: "s_sensor_conn st \<noteq> None \<Longrightarrow> sensor_timer_cb e st = st"
  by (simp add: sensor_timer_cb_def)

lemma timer_skip:
  assumes "s_sensor_conn st = None" and "fst (mc6808_read_temp e (i2c_bus st)) \<le> - 1000"
  shows "sensor_timer_cb e st = st\<lparr>i2c_bus := snd (mc6808_read_temp e (i2c_bus st))\<rparr>"
  using assms by (simp add: sensor_timer_cb_def split_beta Let_def)

lemma timer_report:
  assumes "s_sensor_conn st = None" and "\<not> fst (mc6808_read_temp e (i2c_bus st)) \<le> - 1000"
  shows "sensor_timer_cb e st =
    (let r = \<lparr>hc_handler = Handle_sensor_conn,
              hc_url = cfg_sensor_data_url (hsw e),
              hc_extra_headers =
                map_option (\<lambda>auth. ''Authorization: '' @ auth @ [CHR 13, CHR 10]) (cfg_auth (hsw e)),
              hc_post_data =
                Some (''{'' @ [CHR 34] @ ''office_temperature'' @ [CHR 34] @ '': '' @
                      printf_2lf e (fst (mc6808_read_temp e (i2c_bus st))) @ ''}'')\<rparr>;
         c = connect_reply e (connects st @ [r])
     in st\<lparr>i2c_bus := snd (mc6808_read_temp e (i2c_bus st)),
            connects := connects st @ [r],
            net_live := net_live st \<union> set_option c,
            s_sensor_conn := c\<rparr>)"
  using assms
  by (cases "cfg_auth (hsw e)")
     (simp_all add: sensor_timer_cb_def mg_connect_http_def split_beta Let_def)

text \<open>
  C6. When the write-addressed start is not acknowledged, \<open>mc6808_read_temp\<close> returns
  the sentinel -1000 and that start is the only bus operation it has performed: no register
  selector is sent, no read start is issued, no byte is read and no stop is issued. When
  the write-addressed start is acknowledged and the read-addressed start is not, it returns
  the sentinel after the two starts and the selector byte, and no byte is read.
\<close>

theorem C6_unacknowledged_start:
  "(\<not> write_start_acked e bus \<longrightarrow>
      mc6808_read_temp e bus = (- 1000, bus @ [I2c_start MCP9808_ADDR I2C_WRITE])) \<and>
   (write_start_acked e bus \<and> \<not> read_start_acked e bus \<longrightarrow>
      mc6808_read_temp e bus =
        (- 1000, bus @ [I2c_start MCP9808_ADDR I2C_WRITE, I2c_send_byte 0x05,
                        I2c_start MCP9808_ADDR I2C_READ]))"
  using read_temp_write_nak [of e bus] read_temp_read_nak [of e bus] by blast

theorem C6_unacknowledged_start_witness:
  "\<not> write_start_acked (sensor_env I2C_NAK I2C_ACK 0 0 None None) [] \<and>
   mc6808_read_temp (sensor_env I2C_NAK I2C_ACK 0 0 None None) [] =
     (- 1000, [I2c_start 0x1F I2C_WRITE]) \<and>
   write_start_acked (sensor_env I2C_ACK I2C_ERR 0 0 None None) [] \<and>
   \<not> read_start_acked (sensor_env I2C_ACK I2C_ERR 0 0 None None) [] \<and>
   mc6808_read_temp (sensor_env I2C_ACK I2C_ERR 0 0 None None) [] =
     (- 1000, [I2c_start 0x1F I2C_WRITE, I2c_send_byte 0x05, I2c_start 0x1F I2C_READ])"
proof -
  let ?e1 = "sensor_env I2C_NAK I2C_ACK 0 0 None None"
  let ?e2 = "sensor_env I2C_ACK I2C_ERR 0 0 None None"
  have a: "\<not> write_start_acked ?e1 []"
    by (simp add: write_start_acked_def sensor_env_def)
  have b: "write_start_acked ?e2 []" and c: "\<not> read_start_acked ?e2 []"
    by (simp_all add: write_start_acked_def read_start_acked_def sensor_env_def MCP9808_ADDR_def)
  show ?thesis
    using a b c C6_unacknowledged_start [of ?e1 "[]"] C6_unacknowledged_start [of ?e2 "[]"]
    by (simp add: MCP9808_ADDR_def)
qed

text \<open>
  C9. A temperature produced by a fully acknowledged transaction lies between -256 and
  255.9375 and is greater than the sentinel -1000. So the test \<open>temp <= -1000\<close> holds
  exactly for the reads in which a start was not acknowledged, and a timer firing in the
  idle state leaves out the outbound request exactly for those reads.
\<close>

theorem C9_range_and_guard:
  "(write_start_acked e bus \<and> read_start_acked e bus \<longrightarrow>
      - 256 \<le> fst (mc6808_read_temp e bus) \<and> fst (mc6808_read_temp e bus) \<le> 255.9375 \<and>
      - 1000 < fst (mc6808_read_temp e bus)) \<and>
   (fst (mc6808_read_temp e bus) \<le> - 1000 \<longleftrightarrow>
      \<not> (write_start_acked e bus \<and> read_start_acked e bus)) \<and>
   (s_sensor_conn st = None \<longrightarrow>
      (connects (sensor_timer_cb e st) = connects st \<longleftrightarrow>
         \<not> (write_start_acked e (i2c_bus st) \<and> read_start_acked e (i2c_bus st))))"
proof (intro conjI impI)
  assume a: "write_start_acked e bus \<and> read_start_acked e bus"
  then have r: "fst (mc6808_read_temp e bus) =
                mc6808_decode (upper_reply e bus) (lower_reply e bus)"
    by (simp add: read_temp_acked)
  show "- 256 \<le> fst (mc6808_read_temp e bus)"
    unfolding r using decode_range by blast
  show "fst (mc6808_read_temp e bus) \<le> 255.9375"
    unfolding r using decode_range by blast
  have "- 256 \<le> mc6808_decode (upper_reply e bus) (lower_reply e bus)"
    using decode_range by blast
  then show "- 1000 < fst (mc6808_read_temp e bus)"
    unfolding r by linarith
next
  show "fst (mc6808_read_temp e bus) \<le> - 1000 \<longleftrightarrow>
        \<not> (write_start_acked e bus \<and> read_start_acked e bus)"
    by (rule read_temp_sentinel_iff)
next
  assume idle: "s_sensor_conn st = None"
  show "connects (sensor_timer_cb e st) = connects st \<longleftrightarrow>
        \<not> (write_start_acked e (i2c_bus st) \<and> read_start_acked e (i2c_bus st))"
  proof (cases "fst (mc6808_read_temp e (i2c_bus st)) \<le> - 1000")
    case True
    then show ?thesis
      using read_temp_sentinel_iff [of e "i2c_bus st"] by (simp add: timer_skip [OF idle True])
  next
    case False
    then show ?thesis
      using read_temp_sentinel_iff [of e "i2c_bus st"]
      by (simp add: timer_report [OF idle False] Let_def)
  qed
qed

theorem C9_range_and_guard_witness:
  "write_start_acked (sensor_env I2C_ACK I2C_ACK 0x10 0x00 (Some 1) None) [] \<and>
   read_start_acked (sensor_env I2C_ACK I2C_ACK 0x10 0x00 (Some 1) None) [] \<and>
   s_sensor_conn boot_state = None \<and>
   - 1000 < fst (mc6808_read_temp (sensor_env I2C_ACK I2C_ACK 0x10 0x00 (Some 1) None) []) \<and>
   connects (sensor_timer_cb (sensor_env I2C_ACK I2C_ACK 0x10 0x00 (Some 1) None) boot_state)
     \<noteq> connects boot_state"
proof -
  let ?e = "sensor_env I2C_ACK I2C_ACK 0x10 0x00 (Some 1) None"
  have w: "write_start_acked ?e []" and r: "read_start_acked ?e []"
    by (simp_all add: write_start_acked_def read_start_acked_def sensor_env_def)
  have i: "s_sensor_conn boot_state = None" and b: "i2c_bus boot_state = []"
    by (simp_all add: boot_state_def)
  show ?thesis
    using w r i C9_range_and_guard [of ?e "[]" boot_state] unfolding b by simp
qed

subsection \<open>The actuator\<close>

lemma set_heater_fields:
  "s_heater (set_heater on st) = on"
  "gpio_levels (set_heater on st) = (gpio_levels st)(LED_GPIO \<mapsto> level_of on, RELAY_GPIO \<mapsto> level_of on)"
  "console (set_heater on st) = console st @ [(LL_INFO, ''Heater '' @ on_off on)]"
  "s_sensor_conn (set_heater on st) = s_sensor_conn st"
  "net_live (set_heater on st) = net_live st"
  "i2c_bus (set_heater on st) = i2c_bus st"
  "connects (set_heater on st) = connects st"
  by (simp_all add: set_heater_def CONSOLE_LOG_def mg_gpio_write_def Let_def)

lemma set_heater_outputs_match: "outputs_match (set_heater on st)"
  by (simp add: outputs_match_def set_heater_fields LED_GPIO_def RELAY_GPIO_def)

text \<open>
  C8. After \<open>set_heater on\<close>, whatever the state before (also when the stored boolean
  already was \<open>on\<close>): the indicator output and the relay output are both at the level of
  \<open>on\<close> (high for on, low for off), the stored boolean is \<open>on\<close>, so reading it back gives
  \<open>on\<close>, and the console has received exactly one more line, which names the new state.
\<close>

theorem C8_set_heater:
  "gpio_levels (set_heater on st) LED_GPIO =
     Some (if on then GPIO_LEVEL_HIGH else GPIO_LEVEL_LOW) \<and>
   gpio_levels (set_heater on st) RELAY_GPIO =
     Some (if on then GPIO_LEVEL_HIGH else GPIO_LEVEL_LOW) \<and>
   s_heater (set_heater on st) = on \<and>
   console (set_heater on st) =
     console st @ [(LL_INFO, if on then ''Heater on'' else ''Heater off'')]"
  by (simp add: set_heater_fields level_of_def on_off_def LED_GPIO_def RELAY_GPIO_def)

subsection \<open>The action handler\<close>

lemma action_state:
  "fst (handle_heater_action st nc MG_EV_HTTP_REQUEST hm) =
     (if hm_uri hm = ''/heater/on'' then set_heater True st
      else if hm_uri hm = ''/heater/off'' then set_heater False st
      else st)"
  by (simp add: handle_heater_action_def Let_def)

lemma action_reply:
  "snd (handle_heater_action st nc MG_EV_HTTP_REQUEST hm) =
     nc\<lparr>nc_out := nc_out nc @ [Redirect 302 ''/heater'' []],
        nc_flags := insert MG_F_SEND_AND_CLOSE (nc_flags nc)\<rparr>"
  by (simp add: handle_heater_action_def Let_def mg_http_send_redirect_def set_flag_def)

text \<open>
  C7. For a request event given to the action handler: if the path is exactly
  \<open>/heater/on\<close> the heater is set on, if it is exactly \<open>/heater/off\<close> the heater is set
  off, and for every other path the whole state, the actuator included, is unchanged. In
  all three cases the handler sends a 302 redirect to \<open>/heater\<close> and marks the connection
  to be closed after sending.
\<close>

theorem C7_action_handler:
  "(hm_uri hm = ''/heater/on'' \<longrightarrow>
      fst (handle_heater_action st nc MG_EV_HTTP_REQUEST hm) = set_heater True st \<and>
      s_heater (fst (handle_heater_action st nc MG_EV_HTTP_REQUEST hm))) \<and>
   (hm_uri hm = ''/heater/off'' \<longrightarrow>
      fst (handle_heater_action st nc MG_EV_HTTP_REQUEST hm) = set_heater False st \<and>
      \<not> s_heater (fst (handle_heater_action st nc MG_EV_HTTP_REQUEST hm))) \<and>
   (hm_uri hm \<noteq> ''/heater/on'' \<and> hm_uri hm \<noteq> ''/heater/off'' \<longrightarrow>
      fst (handle_heater_action st nc MG_EV_HTTP_REQUEST hm) = st) \<and>
   nc_out (snd (handle_heater_action st nc MG_EV_HTTP_REQUEST hm)) =
     nc_out nc @ [Redirect 302 ''/heater'' []] \<and>
   MG_F_SEND_AND_CLOSE \<in> nc_flags (snd (handle_heater_action st nc MG_EV_HTTP_REQUEST hm))"
  by (simp add: action_state action_reply set_heater_fields)

theorem C7_action_handler_witness:
  "s_heater (fst (handle_heater_action boot_state empty_conn MG_EV_HTTP_REQUEST
                    \<lparr>hm_uri = ''/heater/on''\<rparr>)) \<and>
   \<not> s_heater (fst (handle_heater_action (set_heater True boot_state) empty_conn
                      MG_EV_HTTP_REQUEST \<lparr>hm_uri = ''/heater/off''\<rparr>)) \<and>
   fst (handle_heater_action (set_heater True boot_state) empty_conn MG_EV_HTTP_REQUEST
          \<lparr>hm_uri = ''/heater/on/''\<rparr>) = set_heater True boot_state \<and>
   nc_out (snd (handle_heater_action boot_state empty_conn MG_EV_HTTP_REQUEST
                  \<lparr>hm_uri = ''/heater/on/''\<rparr>)) = [Redirect 302 ''/heater'' []]"
  using C7_action_handler [of "\<lparr>hm_uri = ''/heater/on''\<rparr>" boot_state empty_conn]
    C7_action_handler [of "\<lparr>hm_uri = ''/heater/off''\<rparr>" "set_heater True boot_state" empty_conn]
    C7_action_handler [of "\<lparr>hm_uri = ''/heater/on/''\<rparr>" "set_heater True boot_state" empty_conn]
    C7_action_handler [of "\<lparr>hm_uri = ''/heater/on/''\<rparr>" boot_state empty_conn]
  by (simp add: empty_conn_def set_heater_fields)

subsection \<open>The reporter\<close>

text \<open>
  C4. When the timer fires in the idle state (no pending handle) and the temperature read
  returns the sentinel, no call of \<open>mg_connect_http\<close> is made and the handle stays empty:
  the state after the callback is the state before it with the bus trace of the failed
  read.
\<close>

theorem C4_timer_skips_failed_read:
  assumes "s_sensor_conn st = None" and "fst (mc6808_read_temp e (i2c_bus st)) = - 1000"
  shows "connects (sensor_timer_cb e st) = connects st \<and>
         net_live (sensor_timer_cb e st) = net_live st \<and>
         s_sensor_conn (sensor_timer_cb e st) = None \<and>
         sensor_timer_cb e st = st\<lparr>i2c_bus := snd (mc6808_read_temp e (i2c_bus st))\<rparr>"
proof -
  have le: "fst (mc6808_read_temp e (i2c_bus st)) \<le> - 1000"
    using assms(2) by simp
  show ?thesis
    using assms(1) by (simp add: timer_skip [OF assms(1) le])
qed

theorem C4_timer_skips_failed_read_witness:
  "s_sensor_conn boot_state = None \<and>
   fst (mc6808_read_temp (sensor_env I2C_NAK I2C_NAK 0 0 (Some 1) None) (i2c_bus boot_state))
     = - 1000 \<and>
   connects (sensor_timer_cb (sensor_env I2C_NAK I2C_NAK 0 0 (Some 1) None) boot_state) = [] \<and>
   s_sensor_conn (sensor_timer_cb (sensor_env I2C_NAK I2C_NAK 0 0 (Some 1) None) boot_state)
     = None"
proof -
  let ?e = "sensor_env I2C_NAK I2C_NAK 0 0 (Some 1) None"
  have i: "s_sensor_conn boot_state = None"
    by (simp add: boot_state_def)
  have "\<not> write_start_acked ?e (i2c_bus boot_state)"
    by (simp add: write_start_acked_def sensor_env_def)
  then have t: "fst (mc6808_read_temp ?e (i2c_bus boot_state)) = - 1000"
    by (simp add: read_temp_write_nak)
  have c: "connects boot_state = []"
    by (simp add: boot_state_def)
  show ?thesis
    using i t C4_timer_skips_failed_read [OF i t] by (simp add: c)
qed

subsection \<open>What each handler does to the state\<close>

lemma heater_state:
  "fst (handle_heater e st nc ev) =
     (if ev \<noteq> MG_EV_HTTP_REQUEST then st
      else st\<lparr>i2c_bus := snd (mc6808_read_temp e (i2c_bus st))\<rparr>)"
  by (simp add: handle_heater_def split_beta Let_def)

lemma action_state_any:
  "fst (handle_heater_action st nc ev hm) =
     (if ev \<noteq> MG_EV_HTTP_REQUEST then st
      else if hm_uri hm = ''/heater/on'' then set_heater True st
      else if hm_uri hm = ''/heater/off'' then set_heater False st
      else st)"
  by (simp add: handle_heater_action_def Let_def)

lemma debug_state: "fst (handle_debug e t free st nc ev) = st"
  by (simp add: handle_debug_def Let_def)

lemma sensor_conn_state:
  "fst (handle_sensor_conn st nc ev) =
     (if ev = MG_EV_CLOSE then st\<lparr>s_sensor_conn := None\<rparr> else st)"
  by (cases ev) (simp_all add: handle_sensor_conn_def)

lemma timer_cases:
  "sensor_timer_cb e st = st \<or>
   sensor_timer_cb e st = st\<lparr>i2c_bus := snd (mc6808_read_temp e (i2c_bus st))\<rparr> \<or>
   (s_sensor_conn st = None \<and>
    (\<exists>r c. sensor_timer_cb e st =
       st\<lparr>i2c_bus := snd (mc6808_read_temp e (i2c_bus st)), connects := connects st @ [r],
          net_live := net_live st \<union> set_option c, s_sensor_conn := c\<rparr>))"
proof (cases "s_sensor_conn st = None")
  case False
  then show ?thesis by (simp add: timer_busy)
next
  case idle: True
  show ?thesis
  proof (cases "fst (mc6808_read_temp e (i2c_bus st)) \<le> - 1000")
    case True
    show ?thesis using timer_skip [OF idle True] by simp
  next
    case False
    have "\<exists>r c. sensor_timer_cb e st =
       st\<lparr>i2c_bus := snd (mc6808_read_temp e (i2c_bus st)), connects := connects st @ [r],
          net_live := net_live st \<union> set_option c, s_sensor_conn := c\<rparr>"
      unfolding timer_report [OF idle False] Let_def by blast
    with idle show ?thesis by blast
  qed
qed

lemma timer_actuator:
  "gpio_levels (sensor_timer_cb e st) = gpio_levels st \<and>
   s_heater (sensor_timer_cb e st) = s_heater st"
  using timer_cases [of e st] by auto

lemma timer_single_flight:
  "single_flight st \<Longrightarrow> single_flight (sensor_timer_cb e st)"
  using timer_cases [of e st] by (auto simp: single_flight_def)

subsection \<open>Invariants of the event loop\<close>

lemma step_actuator:
  "step e st a = set_heater True st \<or> step e st a = set_heater False st \<or>
   (gpio_levels (step e st a) = gpio_levels st \<and> s_heater (step e st a) = s_heater st)"
proof (cases a)
  case Timer_fired
  then show ?thesis using timer_actuator [of e st] by (simp add: step_def)
next
  case (Ev_heater nc ev)
  then show ?thesis by (simp add: step_def heater_state)
next
  case (Ev_heater_action nc ev hm)
  then show ?thesis by (simp add: step_def action_state_any)
next
  case (Ev_debug t free nc ev)
  then show ?thesis by (simp add: step_def debug_state)
next
  case (Ev_sensor_conn c nc ev)
  then show ?thesis by (simp add: step_def sensor_conn_state Let_def)
qed

lemma step_outputs_match: "outputs_match st \<Longrightarrow> outputs_match (step e st a)"
  using step_actuator [of e st a] set_heater_outputs_match
  by (auto simp: outputs_match_def)

lemma step_single_flight: "single_flight st \<Longrightarrow> single_flight (step e st a)"
proof (cases a)
  case Timer_fired
  then show "single_flight st \<Longrightarrow> ?thesis"
    using timer_single_flight [of st e] by (simp add: step_def)
next
  case (Ev_heater nc ev)
  then show "single_flight st \<Longrightarrow> ?thesis"
    by (simp add: step_def heater_state single_flight_def)
next
  case (Ev_heater_action nc ev hm)
  then show "single_flight st \<Longrightarrow> ?thesis"
    by (simp add: step_def action_state_any single_flight_def set_heater_fields)
next
  case (Ev_debug t free nc ev)
  then show "single_flight st \<Longrightarrow> ?thesis"
    by (simp add: step_def debug_state)
next
  case (Ev_sensor_conn c nc ev)
  then show "single_flight st \<Longrightarrow> ?thesis"
    by (auto simp: step_def sensor_conn_state single_flight_def Let_def)
qed

lemma foldl_outputs_match:
  "outputs_match st \<Longrightarrow> outputs_match (foldl (step e) st evs)"
  by (induction evs arbitrary: st) (simp_all add: step_outputs_match)

lemma foldl_single_flight:
  "single_flight st \<Longrightarrow> single_flight (foldl (step e) st evs)"
  by (induction evs arbitrary: st) (simp_all add: step_single_flight)

lemma init_fields:
  "s_heater (mg_app_init e st) = s_heater st"
  "s_sensor_conn (mg_app_init e st) = s_sensor_conn st"
  "net_live (mg_app_init e st) = net_live st"
  "gpio_levels (mg_app_init e st) =
     (gpio_levels st)(LED_GPIO \<mapsto> GPIO_LEVEL_LOW, RELAY_GPIO \<mapsto> GPIO_LEVEL_LOW)"
  by (simp_all add: mg_app_init_def mg_gpio_set_mode_def mg_gpio_write_def
      mg_register_http_endpoint_def i2c_init_def mg_set_c_timer_def Let_def)

lemma run_outputs_match: "outputs_match (run e evs)"
  unfolding run_def
  by (rule foldl_outputs_match)
     (simp add: outputs_match_def init_fields boot_state_def level_of_def
       LED_GPIO_def RELAY_GPIO_def)

lemma run_single_flight: "single_flight (run e evs)"
  unfolding run_def
  by (rule foldl_single_flight) (simp add: single_flight_def init_fields boot_state_def)

text \<open>
  C3. When the timer callback runs while the pending-report handle is non-empty, it
  changes nothing: no call of \<open>mg_connect_http\<close> is made, no bus operation is issued and
  the handle is the same. And at every point of every run of the event loop from
  initialisation, the live outbound connections are exactly the handle, so there is at
  most one.
\<close>

theorem C3_timer_noop_while_reporting:
  "(s_sensor_conn st \<noteq> None \<longrightarrow>
      sensor_timer_cb e st = st \<and>
      connects (sensor_timer_cb e st) = connects st \<and>
      i2c_bus (sensor_timer_cb e st) = i2c_bus st \<and>
      s_sensor_conn (sensor_timer_cb e st) = s_sensor_conn st) \<and>
   net_live (run e evs) = set_option (s_sensor_conn (run e evs)) \<and>
   card (net_live (run e evs)) \<le> 1"
proof -
  have sf: "net_live (run e evs) = set_option (s_sensor_conn (run e evs))"
    using run_single_flight [of e evs] by (simp add: single_flight_def)
  have "card (set_option (s_sensor_conn (run e evs))) \<le> 1"
    by (cases "s_sensor_conn (run e evs)") simp_all
  with sf show ?thesis by (simp add: timer_busy)
qed

theorem C3_timer_noop_while_reporting_witness:
  "s_sensor_conn (boot_state\<lparr>s_sensor_conn := Some 7, net_live := {7}\<rparr>) \<noteq> None \<and>
   sensor_timer_cb (sensor_env I2C_ACK I2C_ACK 0x01 0x58 (Some 8) None)
     (boot_state\<lparr>s_sensor_conn := Some 7, net_live := {7}\<rparr>) =
   boot_state\<lparr>s_sensor_conn := Some 7, net_live := {7}\<rparr>"
  using C3_timer_noop_while_reporting
    [of "boot_state\<lparr>s_sensor_conn := Some 7, net_live := {7}\<rparr>"
        "sensor_env I2C_ACK I2C_ACK 0x01 0x58 (Some 8) None" "[]"]
  by simp

text \<open>
  C10. The stored boolean starts false; \<open>mg_app_init\<close> drives the indicator and the relay
  low and leaves the boolean false, so both outputs match the boolean after
  initialisation. They match after every \<open>set_heater\<close>, and every event of the event loop
  either is a \<open>set_heater\<close> or leaves the output levels and the boolean as they are; so
  they match at every point of every run from initialisation.
\<close>

theorem C10_outputs_match_from_init:
  "s_heater boot_state = False \<and>
   gpio_levels (mg_app_init e boot_state) LED_GPIO = Some GPIO_LEVEL_LOW \<and>
   gpio_levels (mg_app_init e boot_state) RELAY_GPIO = Some GPIO_LEVEL_LOW \<and>
   s_heater (mg_app_init e boot_state) = False \<and>
   outputs_match (mg_app_init e boot_state) \<and>
   outputs_match (set_heater on st) \<and>
   (step e st a = set_heater True st \<or> step e st a = set_heater False st \<or>
      gpio_levels (step e st a) = gpio_levels st \<and> s_heater (step e st a) = s_heater st) \<and>
   outputs_match (run e evs)"
proof -
  have "outputs_match (mg_app_init e boot_state)"
    using run_outputs_match [of e "[]"] by (simp add: run_def)
  then show ?thesis
    using step_actuator [of e st a] run_outputs_match [of e evs]
      set_heater_outputs_match [of on st]
    by (simp add: init_fields boot_state_def LED_GPIO_def RELAY_GPIO_def)
qed

subsection \<open>The status page\<close>

lemma read_temp_value:
  "fst (mc6808_read_temp e bus) =
     (if write_start_acked e bus \<and> read_start_acked e bus
      then mc6808_decode (upper_reply e bus) (lower_reply e bus)
      else - 1000)"
proof (cases "write_start_acked e bus")
  case False
  then show ?thesis by (simp add: read_temp_write_nak)
next
  case True
  then show ?thesis
    by (cases "read_start_acked e bus") (simp_all add: read_temp_acked read_temp_read_nak)
qed

lemma heater_reply:
  "nc_out (snd (handle_heater e st nc MG_EV_HTTP_REQUEST)) =
     nc_out nc @
     [Response_line 200 (''Content-Type: text/html'' @ [CHR 13, CHR 10] @
                         ''Connection: close'' @ [CHR 13, CHR 10]),
      Printf (heater_page e (fst (mc6808_read_temp e (i2c_bus st))) (s_heater st))]"
  by (simp add: handle_heater_def split_beta Let_def mg_send_response_line_def mg_printf_def
      set_flag_def)

lemma printf_sentinel: "c_printf_2lf (- 1000) = ''-1000.00''"
  by (simp add: c_printf_2lf_def round_half_even_def)

text \<open>
  C2, as the code has it. The status handler has no case for the sentinel. For every
  request it sends the response line and one page, which is the fixed text of the format
  string with a numeric temperature field (the value that the temperature read returned,
  printed with \<open>%.2lf\<close>), the heater state, the opposite action twice, and the firmware
  version and build identifier; nothing else is on the page. After a successful read the
  value is the decoded reading; after a failed read it is the sentinel -1000 itself, which
  the conversion prints as -1000.00.
\<close>

theorem C2_status_page_amended:
  "nc_out (snd (handle_heater e st nc MG_EV_HTTP_REQUEST)) =
     nc_out nc @
     [Response_line 200 (''Content-Type: text/html'' @ [CHR 13, CHR 10] @
                         ''Connection: close'' @ [CHR 13, CHR 10]),
      Printf (''<h1>Welcome to Cesanta Office IoT!</h1>'' @ [CHR 13, CHR 10] @
              ''<p>Temperature is '' @
              printf_2lf e
                (if write_start_acked e (i2c_bus st) \<and> read_start_acked e (i2c_bus st)
                 then mc6808_decode (upper_reply e (i2c_bus st)) (lower_reply e (i2c_bus st))
                 else - 1000) @
              ''&deg;C.</p>'' @ [CHR 13, CHR 10] @
              ''<p>Heater is '' @ (if s_heater st then ''on'' else ''off'') @
              ''.</p>'' @ [CHR 13, CHR 10] @
              ''<form action=/heater/'' @ (if s_heater st then ''off'' else ''on'') @
              ''><input type=submit value='' @ [CHR 39] @
              ''Turn heater '' @ (if s_heater st then ''off'' else ''on'') @ [CHR 39] @
              ''></form>'' @ [CHR 13, CHR 10] @
              ''<hr>'' @ [CHR 13, CHR 10] @
              ''Heater FW '' @ fw_version e @ '' ('' @ fw_id e @ '')'')] \<and>
   (printf_2lf e = c_printf_2lf \<and>
    \<not> (write_start_acked e (i2c_bus st) \<and> read_start_acked e (i2c_bus st)) \<longrightarrow>
    nc_out (snd (handle_heater e st nc MG_EV_HTTP_REQUEST)) =
      nc_out nc @
      [Response_line 200 (''Content-Type: text/html'' @ [CHR 13, CHR 10] @
                          ''Connection: close'' @ [CHR 13, CHR 10]),
       Printf (''<h1>Welcome to Cesanta Office IoT!</h1>'' @ [CHR 13, CHR 10] @
               ''<p>Temperature is -1000.00&deg;C.</p>'' @ [CHR 13, CHR 10] @
               ''<p>Heater is '' @ (if s_heater st then ''on'' else ''off'') @
               ''.</p>'' @ [CHR 13, CHR 10] @
               ''<form action=/heater/'' @ (if s_heater st then ''off'' else ''on'') @
               ''><input type=submit value='' @ [CHR 39] @
               ''Turn heater '' @ (if s_heater st then ''off'' else ''on'') @ [CHR 39] @
               ''></form>'' @ [CHR 13, CHR 10] @
               ''<hr>'' @ [CHR 13, CHR 10] @
               ''Heater FW '' @ fw_version e @ '' ('' @ fw_id e @ '')'')])"
proof -
  have page: "nc_out (snd (handle_heater e st nc MG_EV_HTTP_REQUEST)) =
     nc_out nc @
     [Response_line 200 (''Content-Type: text/html'' @ [CHR 13, CHR 10] @
                         ''Connection: close'' @ [CHR 13, CHR 10]),
      Printf (''<h1>Welcome to Cesanta Office IoT!</h1>'' @ [CHR 13, CHR 10] @
              ''<p>Temperature is '' @
              printf_2lf e
                (if write_start_acked e (i2c_bus st) \<and> read_start_acked e (i2c_bus st)
                 then mc6808_decode (upper_reply e (i2c_bus st)) (lower_reply e (i2c_bus st))
                 else - 1000) @
              ''&deg;C.</p>'' @ [CHR 13, CHR 10] @
              ''<p>Heater is '' @ (if s_heater st then ''on'' else ''off'') @
              ''.</p>'' @ [CHR 13, CHR 10] @
              ''<form action=/heater/'' @ (if s_heater st then ''off'' else ''on'') @
              ''><input type=submit value='' @ [CHR 39] @
              ''Turn heater '' @ (if s_heater st then ''off'' else ''on'') @ [CHR 39] @
              ''></form>'' @ [CHR 13, CHR 10] @
              ''<hr>'' @ [CHR 13, CHR 10] @
              ''Heater FW '' @ fw_version e @ '' ('' @ fw_id e @ '')'')]"
    unfolding heater_reply heater_page_def read_temp_value [symmetric]
    by (simp add: on_off_def)
  show ?thesis
  proof (intro conjI impI)
    show "nc_out (snd (handle_heater e st nc MG_EV_HTTP_REQUEST)) =
     nc_out nc @
     [Response_line 200 (''Content-Type: text/html'' @ [CHR 13, CHR 10] @
                         ''Connection: close'' @ [CHR 13, CHR 10]),
      Printf (''<h1>Welcome to Cesanta Office IoT!</h1>'' @ [CHR 13, CHR 10] @
              ''<p>Temperature is '' @
              printf_2lf e
                (if write_start_acked e (i2c_bus st) \<and> read_start_acked e (i2c_bus st)
                 then mc6808_decode (upper_reply e (i2c_bus st)) (lower_reply e (i2c_bus st))
                 else - 1000) @
              ''&deg;C.</p>'' @ [CHR 13, CHR 10] @
              ''<p>Heater is '' @ (if s_heater st then ''on'' else ''off'') @
              ''.</p>'' @ [CHR 13, CHR 10] @
              ''<form action=/heater/'' @ (if s_heater st then ''off'' else ''on'') @
              ''><input type=submit value='' @ [CHR 39] @
              ''Turn heater '' @ (if s_heater st then ''off'' else ''on'') @ [CHR 39] @
              ''></form>'' @ [CHR 13, CHR 10] @
              ''<hr>'' @ [CHR 13, CHR 10] @
              ''Heater FW '' @ fw_version e @ '' ('' @ fw_id e @ '')'')]"
      by (rule page)
  next
    assume a: "printf_2lf e = c_printf_2lf \<and>
      \<not> (write_start_acked e (i2c_bus st) \<and> read_start_acked e (i2c_bus st))"
    have "printf_2lf e
            (if write_start_acked e (i2c_bus st) \<and> read_start_acked e (i2c_bus st)
             then mc6808_decode (upper_reply e (i2c_bus st)) (lower_reply e (i2c_bus st))
             else - 1000) = ''-1000.00''"
      using a printf_sentinel by auto
    then show "nc_out (snd (handle_heater e st nc MG_EV_HTTP_REQUEST)) =
      nc_out nc @
      [Response_line 200 (''Content-Type: text/html'' @ [CHR 13, CHR 10] @
                          ''Connection: close'' @ [CHR 13, CHR 10]),
       Printf (''<h1>Welcome to Cesanta Office IoT!</h1>'' @ [CHR 13, CHR 10] @
               ''<p>Temperature is -1000.00&deg;C.</p>'' @ [CHR 13, CHR 10] @
               ''<p>Heater is '' @ (if s_heater st then ''on'' else ''off'') @
               ''.</p>'' @ [CHR 13, CHR 10] @
               ''<form action=/heater/'' @ (if s_heater st then ''off'' else ''on'') @
               ''><input type=submit value='' @ [CHR 39] @
               ''Turn heater '' @ (if s_heater st then ''off'' else ''on'') @ [CHR 39] @
               ''></form>'' @ [CHR 13, CHR 10] @
               ''<hr>'' @ [CHR 13, CHR 10] @
               ''Heater FW '' @ fw_version e @ '' ('' @ fw_id e @ '')'')]"
      unfolding page by simp
  qed
qed

theorem C2_status_page_amended_witness:
  "printf_2lf (sensor_env I2C_NAK I2C_NAK 0 0 None None) = c_printf_2lf \<and>
   \<not> (write_start_acked (sensor_env I2C_NAK I2C_NAK 0 0 None None)
         (i2c_bus (set_heater True boot_state)) \<and>
       read_start_acked (sensor_env I2C_NAK I2C_NAK 0 0 None None)
         (i2c_bus (set_heater True boot_state))) \<and>
   nc_out (snd (handle_heater (sensor_env I2C_NAK I2C_NAK 0 0 None None)
                  (set_heater True boot_state) empty_conn MG_EV_HTTP_REQUEST)) =
     [Response_line 200 (''Content-Type: text/html'' @ [CHR 13, CHR 10] @
                         ''Connection: close'' @ [CHR 13, CHR 10]),
      Printf (''<h1>Welcome to Cesanta Office IoT!</h1>'' @ [CHR 13, CHR 10] @
              ''<p>Temperature is -1000.00&deg;C.</p>'' @ [CHR 13, CHR 10] @
              ''<p>Heater is on.</p>'' @ [CHR 13, CHR 10] @
              ''<form action=/heater/off><input type=submit value='' @ [CHR 39] @
              ''Turn heater off'' @ [CHR 39] @ ''></form>'' @ [CHR 13, CHR 10] @
              ''<hr>'' @ [CHR 13, CHR 10] @
              ''Heater FW 1.0 (20160101-000000)'')] \<and>
   nc_out (snd (handle_heater (sensor_env I2C_ACK I2C_ACK 0x01 0x58 None None)
                  boot_state empty_conn MG_EV_HTTP_REQUEST)) =
     [Response_line 200 (''Content-Type: text/html'' @ [CHR 13, CHR 10] @
                         ''Connection: close'' @ [CHR 13, CHR 10]),
      Printf (''<h1>Welcome to Cesanta Office IoT!</h1>'' @ [CHR 13, CHR 10] @
              ''<p>Temperature is 21.50&deg;C.</p>'' @ [CHR 13, CHR 10] @
              ''<p>Heater is off.</p>'' @ [CHR 13, CHR 10] @
              ''<form action=/heater/on><input type=submit value='' @ [CHR 39] @
              ''Turn heater on'' @ [CHR 39] @ ''></form>'' @ [CHR 13, CHR 10] @
              ''<hr>'' @ [CHR 13, CHR 10] @
              ''Heater FW 1.0 (20160101-000000)'')]"
proof -
  let ?n = "sensor_env I2C_NAK I2C_NAK 0 0 None None"
  let ?e = "sensor_env I2C_ACK I2C_ACK 0x01 0x58 None None"
  let ?on = "set_heater True boot_state"
  have pn: "printf_2lf ?n = c_printf_2lf"
    by (simp add: sensor_env_def)
  have nak: "\<not> (write_start_acked ?n (i2c_bus ?on) \<and> read_start_acked ?n (i2c_bus ?on))"
    by (simp add: write_start_acked_def sensor_env_def)
  have fn: "fw_version ?n = ''1.0''" "fw_id ?n = ''20160101-000000''" "s_heater ?on = True"
    by (simp_all add: sensor_env_def set_heater_fields)
  have first: "nc_out (snd (handle_heater ?n ?on empty_conn MG_EV_HTTP_REQUEST)) =
     [Response_line 200 (''Content-Type: text/html'' @ [CHR 13, CHR 10] @
                         ''Connection: close'' @ [CHR 13, CHR 10]),
      Printf (''<h1>Welcome to Cesanta Office IoT!</h1>'' @ [CHR 13, CHR 10] @
              ''<p>Temperature is -1000.00&deg;C.</p>'' @ [CHR 13, CHR 10] @
              ''<p>Heater is on.</p>'' @ [CHR 13, CHR 10] @
              ''<form action=/heater/off><input type=submit value='' @ [CHR 39] @
              ''Turn heater off'' @ [CHR 39] @ ''></form>'' @ [CHR 13, CHR 10] @
              ''<hr>'' @ [CHR 13, CHR 10] @
              ''Heater FW 1.0 (20160101-000000)'')]"
    using C2_status_page_amended [of ?n ?on empty_conn, THEN conjunct2, rule_format,
        OF conjI [OF pn nak]]
    unfolding fn by (simp add: empty_conn_def)
  have w: "write_start_acked ?e (i2c_bus boot_state)"
    and r: "read_start_acked ?e (i2c_bus boot_state)"
    by (simp_all add: write_start_acked_def read_start_acked_def sensor_env_def)
  have u: "upper_reply ?e (i2c_bus boot_state) = 0x01"
    and l: "lower_reply ?e (i2c_bus boot_state) = 0x58"
    by (simp_all add: upper_reply_def lower_reply_def sensor_env_def)
  have d: "mc6808_decode 0x01 0x58 = 21.5"
    by (simp add: mc6808_decode_def)
  have p: "printf_2lf ?e = c_printf_2lf" "fw_version ?e = ''1.0''"
    "fw_id ?e = ''20160101-000000''" "s_heater boot_state = False"
    by (simp_all add: sensor_env_def boot_state_def)
  have f: "c_printf_2lf 21.5 = ''21.50''"
    by (simp add: c_printf_2lf_def round_half_even_def)
  have "nc_out (snd (handle_heater ?e boot_state empty_conn MG_EV_HTTP_REQUEST)) =
     nc_out empty_conn @
     [Response_line 200 (''Content-Type: text/html'' @ [CHR 13, CHR 10] @
                         ''Connection: close'' @ [CHR 13, CHR 10]),
      Printf (''<h1>Welcome to Cesanta Office IoT!</h1>'' @ [CHR 13, CHR 10] @
              ''<p>Temperature is '' @ ''21.50'' @
              ''&deg;C.</p>'' @ [CHR 13, CHR 10] @
              ''<p>Heater is '' @ ''off'' @
              ''.</p>'' @ [CHR 13, CHR 10] @
              ''<form action=/heater/'' @ ''on'' @
              ''><input type=submit value='' @ [CHR 39] @
              ''Turn heater '' @ ''on'' @ [CHR 39] @
              ''></form>'' @ [CHR 13, CHR 10] @
              ''<hr>'' @ [CHR 13, CHR 10] @
              ''Heater FW '' @ ''1.0'' @ '' ('' @ ''20160101-000000'' @ '')'')]"
    using C2_status_page_amended [of ?e boot_state empty_conn, THEN conjunct1]
    by (simp only: w r u l d p f if_True if_False simp_thms)
  then have second: "nc_out (snd (handle_heater ?e boot_state empty_conn MG_EV_HTTP_REQUEST)) =
     [Response_line 200 (''Content-Type: text/html'' @ [CHR 13, CHR 10] @
                         ''Connection: close'' @ [CHR 13, CHR 10]),
      Printf (''<h1>Welcome to Cesanta Office IoT!</h1>'' @ [CHR 13, CHR 10] @
              ''<p>Temperature is 21.50&deg;C.</p>'' @ [CHR 13, CHR 10] @
              ''<p>Heater is off.</p>'' @ [CHR 13, CHR 10] @
              ''<form action=/heater/on><input type=submit value='' @ [CHR 39] @
              ''Turn heater on'' @ [CHR 39] @ ''></form>'' @ [CHR 13, CHR 10] @
              ''<hr>'' @ [CHR 13, CHR 10] @
              ''Heater FW 1.0 (20160101-000000)'')]"
    by (simp add: empty_conn_def)
  from pn nak first second show ?thesis by blast
qed

text \<open>
  C2, as the claim states it, fails: with a sensor that does not acknowledge, the read
  returns the sentinel and the page shows it as a temperature, -1000.00.
\<close>

theorem C2_status_page_counterexample:
  "fst (mc6808_read_temp (sensor_env I2C_NAK I2C_NAK 0 0 None None) (i2c_bus boot_state))
     = - 1000 \<and>
   nc_out (snd (handle_heater (sensor_env I2C_NAK I2C_NAK 0 0 None None)
                  boot_state empty_conn MG_EV_HTTP_REQUEST)) =
     [Response_line 200 (''Content-Type: text/html'' @ [CHR 13, CHR 10] @
                         ''Connection: close'' @ [CHR 13, CHR 10]),
      Printf (''<h1>Welcome to Cesanta Office IoT!</h1>'' @ [CHR 13, CHR 10] @
              ''<p>Temperature is -1000.00&deg;C.</p>'' @ [CHR 13, CHR 10] @
              ''<p>Heater is off.</p>'' @ [CHR 13, CHR 10] @
              ''<form action=/heater/on><input type=submit value='' @ [CHR 39] @
              ''Turn heater on'' @ [CHR 39] @ ''></form>'' @ [CHR 13, CHR 10] @
              ''<hr>'' @ [CHR 13, CHR 10] @
              ''Heater FW 1.0 (20160101-000000)'')]"
proof -
  let ?e = "sensor_env I2C_NAK I2C_NAK 0 0 None None"
  have "\<not> write_start_acked ?e (i2c_bus boot_state)"
    by (simp add: write_start_acked_def sensor_env_def)
  then have t: "fst (mc6808_read_temp ?e (i2c_bus boot_state)) = - 1000"
    by (simp add: read_temp_write_nak)
  have f: "c_printf_2lf (- 1000) = ''-1000.00''"
    by (simp add: c_printf_2lf_def round_half_even_def)
  have p: "printf_2lf ?e = c_printf_2lf" "fw_version ?e = ''1.0''"
    "fw_id ?e = ''20160101-000000''"
    by (simp_all add: sensor_env_def)
  have h: "s_heater boot_state = False"
    by (simp add: boot_state_def)
  show ?thesis
    unfolding heater_reply t heater_page_def p f h
    by (simp add: empty_conn_def on_off_def)
qed

subsection \<open>A report cycle\<close>








end
